theory Spec2Isabelle
  imports Main "HOL-Library.Word" "HOL-Library.Multiset"
begin

unbundle bit_operations_syntax

section \<open>Library functions the package calls\<close>

text \<open>
  Go strings are byte sequences; they are modelled as \<open>string\<close> (a list of 8-bit
  characters). The functions of this section belong to Go's standard library
  (\<open>strconv\<close>, \<open>strings\<close>, \<open>net\<close>, \<open>encoding/binary\<close>, \<open>fmt\<close>); each is
  modelled after its documented behaviour, on the inputs the package gives it.
\<close>

text \<open>\<open>%d\<close> of an unsigned value, \<open>strconv.FormatUint(n, 10)\<close>: decimal digits, no
  sign, no leading zero.\<close>

function FormatUint :: "nat \<Rightarrow> string" where
  "FormatUint n = (if n < 10 then [char_of (48 + n)]
                   else FormatUint (n div 10) @ [char_of (48 + n mod 10)])"
  by pat_completeness auto
termination
  by (relation "measure id") auto

text \<open>\<open>binary.BigEndian.PutUint32\<close> into a fresh 4-byte slice: most significant byte
  first.\<close>

definition PutUint32 :: "32 word \<Rightarrow> 8 word list" where
  "PutUint32 v = [ucast (drop_bit 24 v), ucast (drop_bit 16 v), ucast (drop_bit 8 v), ucast v]"

fun join_dots :: "string list \<Rightarrow> string" where
  "join_dots [] = []"
| "join_dots [s] = s"
| "join_dots (s # t # ss) = s @ ''.'' @ join_dots (t # ss)"

text \<open>\<open>net.IP.String\<close> on a 4-byte address: dotted decimal.\<close>

definition IP_String :: "8 word list \<Rightarrow> string" where
  "IP_String ip = join_dots (map (\<lambda>b. FormatUint (unat b)) ip)"

definition hexdigit :: "nat \<Rightarrow> char" where
  "hexdigit n = (if n < 10 then char_of (48 + n) else char_of (87 + n))"

text \<open>\<open>net.IPMask.String\<close>: the bytes in lower-case hexadecimal, without
  punctuation.\<close>

definition IPMask_String :: "8 word list \<Rightarrow> string" where
  "IPMask_String m = concat (map (\<lambda>b. [hexdigit (unat b div 16), hexdigit (unat b mod 16)]) m)"

fun leading_ones :: "bool list \<Rightarrow> nat" where
  "leading_ones [] = 0"
| "leading_ones (b # bs) = (if b then Suc (leading_ones bs) else 0)"

definition mask_bits_msb :: "8 word list \<Rightarrow> bool list" where
  "mask_bits_msb m = concat (map (\<lambda>b. map (bit b) (rev [0..<8])) m)"

text \<open>\<open>net.simpleMaskLength\<close>: the number of leading one bits when every bit after
  them is zero, and no length (\<open>-1\<close> in Go) otherwise.\<close>

definition simpleMaskLength :: "8 word list \<Rightarrow> nat option" where
  "simpleMaskLength m =
     (let bs = mask_bits_msb m; n = leading_ones bs
      in if list_ex id (drop n bs) then None else Some n)"

text \<open>The first component of \<open>net.IPMask.Size\<close>: the number of leading ones of a
  canonical mask, and 0 for a mask that is not ones followed by zeros.\<close>

definition IPMask_Size :: "8 word list \<Rightarrow> nat" where
  "IPMask_Size m = (case simpleMaskLength m of None \<Rightarrow> 0 | Some n \<Rightarrow> n)"

text \<open>\<open>net.IPNet.String\<close> on a 4-byte network number and a 4-byte mask: the CIDR form
  when the mask is canonical, and the network number, a slash and the mask in
  hexadecimal otherwise.\<close>

definition IPNet_String :: "8 word list \<Rightarrow> 8 word list \<Rightarrow> string" where
  "IPNet_String nn m =
     (case simpleMaskLength m of
        None \<Rightarrow> IP_String nn @ ''/'' @ IPMask_String m
      | Some l \<Rightarrow> IP_String nn @ ''/'' @ FormatUint l)"

section \<open>IPv4 addresses\<close>

type_synonym IPv4Address = "32 word"
type_synonym IPv4Network = "32 word"
type_synonym IPv4Mask = "32 word"
type_synonym IPPort = "16 word"

definition IPv4HostMask :: IPv4Mask where
  "IPv4HostMask = 0xffffffff"

text \<open>The struct \<open>IPv4Addr\<close>. Its embedded interface field \<open>IPAddr\<close> is set by no
  function of the package and stays nil in every value built here; it is left out.\<close>

record IPv4Addr =
  Address :: IPv4Address
  Mask :: IPv4Mask
  Port :: IPPort

definition NetworkAddress :: "IPv4Addr \<Rightarrow> IPv4Network" where
  "NetworkAddress ipv4 = Address ipv4 AND Mask ipv4"

definition BroadcastAddress :: "IPv4Addr \<Rightarrow> IPv4Address" where
  "BroadcastAddress ipv4 = (Address ipv4 AND Mask ipv4) OR NOT (Mask ipv4)"

definition Maskbits :: "IPv4Addr \<Rightarrow> nat" where
  "Maskbits ipv4 = IPMask_Size (PutUint32 (Mask ipv4))"

definition NetIP :: "IPv4Addr \<Rightarrow> 8 word list" where
  "NetIP ipv4 = PutUint32 (Address ipv4)"

definition NetIPMask :: "IPv4Addr \<Rightarrow> 8 word list" where
  "NetIPMask ipv4 = PutUint32 (Mask ipv4)"

text \<open>\<open>NetIPNet\<close> builds a \<open>net.IPNet\<close>: the pair of the network number and the
  mask.\<close>

definition NetIPNet :: "IPv4Addr \<Rightarrow> 8 word list \<times> 8 word list" where
  "NetIPNet ipv4 = (PutUint32 (NetworkAddress ipv4), NetIPMask ipv4)"

definition Broadcast :: "IPv4Addr \<Rightarrow> IPv4Addr" where
  "Broadcast ipv4 = \<lparr>Address = BroadcastAddress ipv4, Mask = IPv4HostMask, Port = 0\<rparr>"

definition Network :: "IPv4Addr \<Rightarrow> IPv4Addr" where
  "Network ipv4 = \<lparr>Address = NetworkAddress ipv4, Mask = Mask ipv4, Port = 0\<rparr>"

definition FirstUsable :: "IPv4Addr \<Rightarrow> IPv4Addr" where
  "FirstUsable ipv4 =
     (let addr = NetworkAddress ipv4;
          addr = (if Maskbits ipv4 < 31 then addr + 1 else addr)
      in \<lparr>Address = addr, Mask = IPv4HostMask, Port = 0\<rparr>)"

definition LastUsable :: "IPv4Addr \<Rightarrow> IPv4Addr" where
  "LastUsable ipv4 =
     (let addr = BroadcastAddress ipv4;
          addr = (if Maskbits ipv4 < 31 then addr - 1 else addr)
      in \<lparr>Address = addr, Mask = IPv4HostMask, Port = 0\<rparr>)"

definition Host :: "IPv4Addr \<Rightarrow> IPv4Addr" where
  "Host ipv4 = \<lparr>Address = Address ipv4, Mask = IPv4HostMask, Port = Port ipv4\<rparr>"

definition IPPort :: "IPv4Addr \<Rightarrow> 16 word" where
  "IPPort ipv4 = Port ipv4"

text \<open>\<open>fmt.Sprintf("%s:%d", ipv4.NetIP().String(), ipv4.Port)\<close>, which five methods
  share.\<close>

definition host_port :: "IPv4Addr \<Rightarrow> string" where
  "host_port ipv4 = IP_String (NetIP ipv4) @ '':'' @ FormatUint (unat (Port ipv4))"

definition DialPacketArgs :: "IPv4Addr \<Rightarrow> string \<times> string" where
  "DialPacketArgs ipv4 =
     (if Mask ipv4 \<noteq> IPv4HostMask \<or> Port ipv4 = 0 then (''udp4'', '''')
      else (''udp4'', host_port ipv4))"

definition DialStreamArgs :: "IPv4Addr \<Rightarrow> string \<times> string" where
  "DialStreamArgs ipv4 =
     (if Mask ipv4 \<noteq> IPv4HostMask \<or> Port ipv4 = 0 then (''tcp4'', '''')
      else (''tcp4'', host_port ipv4))"

definition ListenPacketArgs :: "IPv4Addr \<Rightarrow> string \<times> string" where
  "ListenPacketArgs ipv4 =
     (if Mask ipv4 \<noteq> IPv4HostMask then (''udp4'', '''')
      else (''udp4'', host_port ipv4))"

definition ListenStreamArgs :: "IPv4Addr \<Rightarrow> string \<times> string" where
  "ListenStreamArgs ipv4 =
     (if Mask ipv4 \<noteq> IPv4HostMask then (''tcp4'', '''')
      else (''tcp4'', host_port ipv4))"

definition IPv4Addr_String :: "IPv4Addr \<Rightarrow> string" where
  "IPv4Addr_String ipv4 =
     (if Port ipv4 \<noteq> 0 then host_port ipv4
      else if Maskbits ipv4 = 32 then IP_String (NetIP ipv4)
      else IP_String (NetIP ipv4) @ ''/'' @ FormatUint (Maskbits ipv4))"

section \<open>Socket addresses\<close>

text \<open>
  Modelled from the spec: the type tags of \<open>SockAddrType\<close> are declared outside the
  files at hand. They form a bit mask, so that a set of types is tested with a bitwise
  AND, and \<open>TypeIP\<close> is the union of \<open>TypeIPv4\<close> and \<open>TypeIPv6\<close>.
\<close>

type_synonym SockAddrType = int

definition TypeUnknown :: SockAddrType where "TypeUnknown = 0"
definition TypeUnix :: SockAddrType where "TypeUnix = 1"
definition TypeIPv4 :: SockAddrType where "TypeIPv4 = 2"
definition TypeIPv6 :: SockAddrType where "TypeIPv6 = 4"
definition TypeIP :: SockAddrType where "TypeIP = 6"

text \<open>
  Modelled from the spec: the IPv6 and the UNIX variant are declared outside the files
  at hand. An IPv6 address has the shape of an IPv4 address with a 128-bit address and
  mask; a UNIX socket address wraps a path.
\<close>

record IPv6Addr =
  Address6 :: "128 word"
  Mask6 :: "128 word"
  Port6 :: IPPort

record UnixSock =
  path :: string

text \<open>The interface \<open>SockAddr\<close> as the sum of its three implementations.\<close>

datatype SockAddr = SockIPv4 IPv4Addr | SockIPv6 IPv6Addr | SockUnix UnixSock

fun SockAddr_Type :: "SockAddr \<Rightarrow> SockAddrType" where
  "SockAddr_Type (SockIPv4 a) = TypeIPv4"
| "SockAddr_Type (SockIPv6 a) = TypeIPv6"
| "SockAddr_Type (SockUnix a) = TypeUnix"

text \<open>\<open>IPv4Addr.Equal\<close>: the type tag, the type assertion, then the port, the address
  and the string form of the network.\<close>

definition Equal :: "IPv4Addr \<Rightarrow> SockAddr \<Rightarrow> bool" where
  "Equal ipv4 sa =
     (if SockAddr_Type sa \<noteq> TypeIPv4 then False
      else case sa of
        SockIPv4 ipv4b \<Rightarrow>
          if Port ipv4 \<noteq> Port ipv4b then False
          else if Address ipv4 \<noteq> Address ipv4b then False
          else if (case NetIPNet ipv4 of (nn, m) \<Rightarrow> IPNet_String nn m)
                  \<noteq> (case NetIPNet ipv4b of (nn, m) \<Rightarrow> IPNet_String nn m) then False
          else True
      | _ \<Rightarrow> False)"

section \<open>More library functions: parsing and splitting strings\<close>

text \<open>Errors as values: an error built by \<open>errors.New\<close> or \<open>fmt.Errorf\<close> with its
  message, the two errors of \<open>strconv\<close>, the error of \<open>regexp.Compile\<close> on the
  expression it refuses, and the run-time panic of an index out of range.\<close>

datatype error =
    Error string
  | ErrSyntax
  | ErrRange
  | ErrRegexp string
  | PanicIndexOutOfRange

text \<open>The value of a string of decimal digits.\<close>

definition decode_dec :: "string \<Rightarrow> nat" where
  "decode_dec s = foldl (\<lambda>a c. 10 * a + (of_char c - 48)) 0 s"

definition is_digit :: "char \<Rightarrow> bool" where
  "is_digit c = (48 \<le> (of_char c :: nat) \<and> (of_char c :: nat) \<le> 57)"

text \<open>\<open>strconv.ParseUint(s, 10, 64)\<close> returns a value together with the error. It
  refuses the empty string, then reads the bytes from left to right with the value so
  far in \<open>n\<close>: a byte that is not a decimal digit ends it with 0 and a syntax error (a
  sign is not accepted); a digit that would take the value beyond 64 bits ends it with
  the largest 64-bit value and a range error, the first test being \<open>n >= cutoff\<close> with
  \<open>cutoff = maxUint64/10 + 1\<close>. So the error is that of the first offending byte.\<close>

fun ParseUint_from :: "nat \<Rightarrow> string \<Rightarrow> nat \<times> error option" where
  "ParseUint_from n [] = (n, None)"
| "ParseUint_from n (c # cs) =
     (if \<not> is_digit c then (0, Some ErrSyntax)
      else if (2 ^ 64 - 1) div 10 + 1 \<le> n then (2 ^ 64 - 1, Some ErrRange)
      else if 2 ^ 64 - 1 < 10 * n + (of_char c - 48) then (2 ^ 64 - 1, Some ErrRange)
      else ParseUint_from (10 * n + (of_char c - 48)) cs)"

definition ParseUint :: "string \<Rightarrow> nat \<times> error option" where
  "ParseUint s = (if s = [] then (0, Some ErrSyntax) else ParseUint_from 0 s)"

text \<open>\<open>strings.ToLower\<close>, as far as the code can tell: it only compares the result
  with names made of ASCII letters. Go decodes the string as UTF-8 and lower-cases
  every code point. The ASCII capitals become their small letters, and exactly two
  code points beyond ASCII become ASCII letters: U+0130 (the bytes C4 B0) becomes \<open>i\<close>
  and U+212A (the bytes E2 84 AA) becomes \<open>k\<close>; since C4 and E2 are never continuation
  bytes, these byte sequences always decode to those code points. Every other byte
  beyond ASCII gives bytes beyond ASCII in Go's result, and is kept here. So the result
  is Go's whenever Go's result is an ASCII string, and is no ASCII string otherwise.\<close>

definition lower_char :: "char \<Rightarrow> char" where
  "lower_char c =
     (if 65 \<le> (of_char c :: nat) \<and> (of_char c :: nat) \<le> 90 then char_of (of_char c + 32 :: nat)
      else c)"

fun ToLower :: "string \<Rightarrow> string" where
  "ToLower [] = []"
| "ToLower (c # cs) =
     (if c = CHR 0xC4 \<and> take 1 cs = [CHR 0xB0] then CHR ''i'' # ToLower (drop 1 cs)
      else if c = CHR 0xE2 \<and> take 2 cs = [CHR 0x84, CHR 0xAA] then CHR ''k'' # ToLower (drop 2 cs)
      else lower_char c # ToLower cs)"

text \<open>\<open>strings.Split(s, sep)\<close> for a separator of one byte: every piece between two
  separators, so one piece more than there are separators.\<close>

fun Split :: "char \<Rightarrow> string \<Rightarrow> string list" where
  "Split sep [] = [[]]"
| "Split sep (c # cs) =
     (if c = sep then [] # Split sep cs
      else (case Split sep cs of [] \<Rightarrow> [[c]] | w # ws \<Rightarrow> (c # w) # ws))"

text \<open>\<open>strings.SplitN(s, sep, n)\<close> for a separator of one byte and \<open>n \<ge> 0\<close>: at most
  \<open>n\<close> pieces, the last one being the unsplit rest.\<close>

fun SplitN :: "char \<Rightarrow> string \<Rightarrow> nat \<Rightarrow> string list" where
  "SplitN sep s 0 = []"
| "SplitN sep s (Suc 0) = [s]"
| "SplitN sep s (Suc (Suc n)) =
     (if sep \<in> set s
      then takeWhile (\<lambda>c. c \<noteq> sep) s # SplitN sep (tl (dropWhile (\<lambda>c. c \<noteq> sep) s)) (Suc n)
      else [s])"

text \<open>The UTF-8 encodings of the code points for which \<open>unicode.IsSpace\<close> holds: the
  six ASCII ones, U+0085, U+00A0, U+1680, U+2000 to U+200A, U+2028, U+2029, U+202F,
  U+205F and U+3000.\<close>

definition space_encodings :: "string list" where
  "space_encodings =
     [[CHR 0x09], [CHR 0x0A], [CHR 0x0B], [CHR 0x0C], [CHR 0x0D], [CHR 0x20],
      [CHR 0xC2, CHR 0x85], [CHR 0xC2, CHR 0xA0], [CHR 0xE1, CHR 0x9A, CHR 0x80],
      [CHR 0xE2, CHR 0x80, CHR 0x80], [CHR 0xE2, CHR 0x80, CHR 0x81],
      [CHR 0xE2, CHR 0x80, CHR 0x82], [CHR 0xE2, CHR 0x80, CHR 0x83],
      [CHR 0xE2, CHR 0x80, CHR 0x84], [CHR 0xE2, CHR 0x80, CHR 0x85],
      [CHR 0xE2, CHR 0x80, CHR 0x86], [CHR 0xE2, CHR 0x80, CHR 0x87],
      [CHR 0xE2, CHR 0x80, CHR 0x88], [CHR 0xE2, CHR 0x80, CHR 0x89],
      [CHR 0xE2, CHR 0x80, CHR 0x8A], [CHR 0xE2, CHR 0x80, CHR 0xA8],
      [CHR 0xE2, CHR 0x80, CHR 0xA9], [CHR 0xE2, CHR 0x80, CHR 0xAF],
      [CHR 0xE2, CHR 0x81, CHR 0x9F], [CHR 0xE3, CHR 0x80, CHR 0x80]]"

text \<open>Dropping, as long as there is one, a leading piece that is one of \<open>encs\<close>.\<close>

function strip_leading :: "string list \<Rightarrow> string \<Rightarrow> string" where
  "strip_leading encs s =
     (case find (\<lambda>e. e \<noteq> [] \<and> take (length e) s = e) encs of
        None \<Rightarrow> s
      | Some e \<Rightarrow> strip_leading encs (drop (length e) s))"
  by pat_completeness auto
termination
proof (relation "measure (\<lambda>(encs, s). length s)")
  show "wf (measure (\<lambda>(encs, s). length s))" by simp
next
  fix encs :: "string list" and s e :: string
  assume "find (\<lambda>e. e \<noteq> [] \<and> take (length e) s = e) encs = Some e"
  then have "e \<noteq> [] \<and> take (length e) s = e"
    by (auto simp: find_Some_iff)
  then have "0 < length e" "s \<noteq> []" by auto
  then show "((encs, drop (length e) s), (encs, s)) \<in> measure (\<lambda>(encs, s). length s)"
    by simp
qed

text \<open>\<open>strings.TrimSpace\<close>: the string without its leading and its trailing white
  space.\<close>

definition TrimSpace :: "string \<Rightarrow> string" where
  "TrimSpace s =
     rev (strip_leading (map rev space_encodings) (rev (strip_leading space_encodings s)))"

text \<open>\<open>strings.Compare\<close>: the lexicographic order of the bytes.\<close>

fun Compare :: "string \<Rightarrow> string \<Rightarrow> int" where
  "Compare [] [] = 0"
| "Compare [] (y # ys) = - 1"
| "Compare (x # xs) [] = 1"
| "Compare (x # xs) (y # ys) =
     (if (of_char x :: nat) < of_char y then - 1
      else if (of_char y :: nat) < of_char x then 1
      else Compare xs ys)"

section \<open>Interface addresses\<close>

text \<open>\<open>net.Interface\<close> of the standard library, which \<open>IfAddr\<close> embeds.\<close>

record Interface =
  Index :: int
  MTU :: int
  Name :: string
  HardwareAddr :: "8 word list"
  Flags :: nat

text \<open>
  Modelled from the spec: the struct \<open>IfAddr\<close> is declared outside the files at hand.
  It is one address observed on one interface: the wrapped address and the metadata of
  the interface. The code builds it as \<open>IfAddr{SockAddr: ..., Interface: ...}\<close> and reads
  the promoted field \<open>ifAddr.Name\<close>, which is \<open>Name (Interface ifAddr)\<close> here.
\<close>

record IfAddr =
  SockAddr :: SockAddr
  Interface :: Interface

type_synonym IfAddrs = "IfAddr list"

type_synonym CmpIfAddrFunc = "IfAddr \<Rightarrow> IfAddr \<Rightarrow> int"

text \<open>
  What \<open>ifaddrs.go\<close> calls and the files at hand do not hold is passed in, as one
  record: the regular expressions of the standard library (\<open>regexp.Compile\<close> gives the
  matcher of \<open>MatchString\<close>, or fails), the registry \<open>rfcNetMap\<close> with the membership
  test \<open>Contains\<close> of its networks, the methods of the IPv6 and the UNIX variant, the
  name of a type tag, the comparators of socket addresses, and the verb \<open>%+q\<close> of
  \<open>fmt\<close>. The theorems below hold for every such record.
\<close>

record 'net Env =
  regexp_Compile :: "string \<Rightarrow> (string \<Rightarrow> bool) option"
  rfcNetMap :: "nat \<Rightarrow> 'net list option"
  Contains :: "'net \<Rightarrow> SockAddr \<Rightarrow> bool"
  IPv6Addr_String :: "IPv6Addr \<Rightarrow> string"
  IPv6Addr_Maskbits :: "IPv6Addr \<Rightarrow> nat"
  UnixSock_String :: "UnixSock \<Rightarrow> string"
  SockAddrType_String :: "SockAddrType \<Rightarrow> string"
  AscAddress :: "SockAddr \<Rightarrow> SockAddr \<Rightarrow> int"
  AscNetworkSize :: "SockAddr \<Rightarrow> SockAddr \<Rightarrow> int"
  AscPort :: "SockAddr \<Rightarrow> SockAddr \<Rightarrow> int"
  AscPrivate :: "SockAddr \<Rightarrow> SockAddr \<Rightarrow> int"
  AscType :: "SockAddr \<Rightarrow> SockAddr \<Rightarrow> int"
  quote_plus :: "string \<Rightarrow> string"

text \<open>The methods of the interface \<open>SockAddr\<close> and \<open>IPAddr\<close> that \<open>ifaddrs.go\<close>
  calls, dispatched on the variant.\<close>

fun SockAddr_String :: "'net Env \<Rightarrow> SockAddr \<Rightarrow> string" where
  "SockAddr_String env (SockIPv4 a) = IPv4Addr_String a"
| "SockAddr_String env (SockIPv6 a) = IPv6Addr_String env a"
| "SockAddr_String env (SockUnix a) = UnixSock_String env a"

text \<open>Modelled from the spec: \<open>ToIPAddr\<close> is declared outside the files at hand. It
  gives the address as an \<open>IPAddr\<close> when it is an IPv4 or an IPv6 address, and nil
  otherwise.\<close>

fun ToIPAddr :: "SockAddr \<Rightarrow> SockAddr option" where
  "ToIPAddr (SockIPv4 a) = Some (SockIPv4 a)"
| "ToIPAddr (SockIPv6 a) = Some (SockIPv6 a)"
| "ToIPAddr (SockUnix a) = None"

fun IPAddr_IPPort :: "SockAddr \<Rightarrow> 16 word" where
  "IPAddr_IPPort (SockIPv4 a) = IPPort a"
| "IPAddr_IPPort (SockIPv6 a) = Port6 a"
| "IPAddr_IPPort (SockUnix a) = 0"

fun IPAddr_Maskbits :: "'net Env \<Rightarrow> SockAddr \<Rightarrow> nat" where
  "IPAddr_Maskbits env (SockIPv4 a) = Maskbits a"
| "IPAddr_Maskbits env (SockIPv6 a) = IPv6Addr_Maskbits env a"
| "IPAddr_Maskbits env (SockUnix a) = 0"

subsection \<open>Comparators of interface addresses\<close>

definition AscIfAddress :: "'net Env \<Rightarrow> CmpIfAddrFunc" where
  "AscIfAddress env p1 p2 = AscAddress env (SockAddr p1) (SockAddr p2)"

definition AscIfName :: CmpIfAddrFunc where
  "AscIfName p1 p2 = Compare (Name (Interface p1)) (Name (Interface p2))"

definition AscIfNetworkSize :: "'net Env \<Rightarrow> CmpIfAddrFunc" where
  "AscIfNetworkSize env p1 p2 = AscNetworkSize env (SockAddr p1) (SockAddr p2)"

definition AscIfPort :: "'net Env \<Rightarrow> CmpIfAddrFunc" where
  "AscIfPort env p1 p2 = AscPort env (SockAddr p1) (SockAddr p2)"

definition AscIfPrivate :: "'net Env \<Rightarrow> CmpIfAddrFunc" where
  "AscIfPrivate env p1 p2 = AscPrivate env (SockAddr p1) (SockAddr p2)"

definition AscIfType :: "'net Env \<Rightarrow> CmpIfAddrFunc" where
  "AscIfType env p1 p2 = AscType env (SockAddr p1) (SockAddr p2)"

subsection \<open>The filters\<close>

definition FilterIfByType :: "IfAddrs \<Rightarrow> SockAddrType \<Rightarrow> IfAddrs \<times> IfAddrs" where
  "FilterIfByType ifAddrs type' =
     partition (\<lambda>ifAddr. SockAddr_Type (SockAddr ifAddr) AND type' \<noteq> 0) ifAddrs"

definition IfByAddress :: "'net Env \<Rightarrow> string \<Rightarrow> IfAddrs \<Rightarrow> error + IfAddrs \<times> IfAddrs" where
  "IfByAddress env inputRe ifAddrs =
     (case regexp_Compile env inputRe of
        None \<Rightarrow> Inl (ErrRegexp inputRe)
      | Some re \<Rightarrow> Inr (partition (\<lambda>addr. re (SockAddr_String env (SockAddr addr))) ifAddrs))"

definition IfByName :: "'net Env \<Rightarrow> string \<Rightarrow> IfAddrs \<Rightarrow> error + IfAddrs \<times> IfAddrs" where
  "IfByName env inputRe ifAddrs =
     (case regexp_Compile env inputRe of
        None \<Rightarrow> Inl (ErrRegexp inputRe)
      | Some re \<Rightarrow> Inr (partition (\<lambda>addr. re (Name (Interface addr))) ifAddrs))"

text \<open>\<open>IfByPort\<close> and \<open>IfByMaskSize\<close> put the addresses that are not IP addresses in
  front of the excluded list, and skip an address that \<open>ToIPAddr\<close> does not convert.\<close>

definition IfByPort :: "'net Env \<Rightarrow> string \<Rightarrow> IfAddrs \<Rightarrow> error + IfAddrs \<times> IfAddrs" where
  "IfByPort env inputRe ifAddrs =
     (case regexp_Compile env inputRe of
        None \<Rightarrow> Inl (ErrRegexp inputRe)
      | Some re \<Rightarrow>
          (case FilterIfByType ifAddrs TypeIP of
             (ipIfs, nonIfs) \<Rightarrow>
               (let ips = filter (\<lambda>addr. ToIPAddr (SockAddr addr) \<noteq> None) ipIfs;
                    hit = (\<lambda>addr. re (FormatUint (unat (IPAddr_IPPort (SockAddr addr)))))
                in Inr (filter hit ips, nonIfs @ filter (\<lambda>addr. \<not> hit addr) ips))))"

definition IfByMaskSize :: "'net Env \<Rightarrow> nat \<Rightarrow> IfAddrs \<Rightarrow> error + IfAddrs \<times> IfAddrs" where
  "IfByMaskSize env maskSize ifAddrs =
     (case FilterIfByType ifAddrs TypeIP of
        (ipIfs, nonIfs) \<Rightarrow>
          (let ips = filter (\<lambda>addr. ToIPAddr (SockAddr addr) \<noteq> None) ipIfs;
               hit = (\<lambda>addr. IPAddr_Maskbits env (SockAddr addr) = maskSize)
           in Inr (filter hit ips, nonIfs @ filter (\<lambda>addr. \<not> hit addr) ips)))"

definition IfByType :: "'net Env \<Rightarrow> string \<Rightarrow> IfAddrs \<Rightarrow> error + IfAddrs \<times> IfAddrs" where
  "IfByType env inputRe ifAddrs =
     (case regexp_Compile env inputRe of
        None \<Rightarrow> Inl (ErrRegexp inputRe)
      | Some re \<Rightarrow>
          Inr (partition (\<lambda>ifAddr. re (SockAddrType_String env (SockAddr_Type (SockAddr ifAddr))))
                 ifAddrs))"

text \<open>\<open>IfByRFC\<close>: an address is matched when one of the networks registered under the
  identifier contains it, and is left in the remainder otherwise; an identifier that
  the registry does not hold is an error.\<close>

definition IfByRFC :: "'net Env \<Rightarrow> nat \<Rightarrow> IfAddrs \<Rightarrow> error + IfAddrs \<times> IfAddrs" where
  "IfByRFC env inputRFC ifAddrs =
     (case rfcNetMap env inputRFC of
        None \<Rightarrow> Inl (Error (''unsupported RFC '' @ FormatUint inputRFC))
      | Some rfcNets \<Rightarrow>
          Inr (partition
                 (\<lambda>ifAddr. list_ex (\<lambda>rfcNet. Contains env rfcNet (SockAddr ifAddr)) rfcNets)
                 ifAddrs))"

subsection \<open>Including and excluding by a selector\<close>

text \<open>The loop of the \<open>rfc\<close> case of \<open>IncludeIfs\<close> over the pieces of the parameter:
  a piece that does not parse is skipped, and so is an identifier that \<open>IfByRFC\<close>
  refuses. (\<open>uint\<close> is taken to be 64 bits wide, so that \<open>uint(rfc)\<close> is \<open>rfc\<close>.)\<close>

fun IncludeIfs_rfc :: "'net Env \<Rightarrow> IfAddrs \<Rightarrow> string list \<Rightarrow> IfAddrs \<Rightarrow> IfAddrs" where
  "IncludeIfs_rfc env inputIfAddrs [] includedIfs = includedIfs"
| "IncludeIfs_rfc env inputIfAddrs (rfcStr # rfcs) includedIfs =
     (case ParseUint rfcStr of
        (rfc, Some err) \<Rightarrow> IncludeIfs_rfc env inputIfAddrs rfcs includedIfs
      | (rfc, None) \<Rightarrow>
          (case IfByRFC env rfc inputIfAddrs of
             Inl err \<Rightarrow> IncludeIfs_rfc env inputIfAddrs rfcs includedIfs
           | Inr (includedRFCIfs, remainder) \<Rightarrow>
               IncludeIfs_rfc env inputIfAddrs rfcs (includedIfs @ includedRFCIfs)))"

text \<open>The loop of the \<open>rfc\<close> case of \<open>ExcludeIfs\<close>. Its first test is
  \<open>if err == nil { continue }\<close>: a piece that parses is skipped, and a piece that does
  not parse goes on to \<open>IfByRFC\<close> with the value \<open>ParseUint\<close> returned beside the
  error.\<close>

fun ExcludeIfs_rfc :: "'net Env \<Rightarrow> IfAddrs \<Rightarrow> string list \<Rightarrow> IfAddrs \<Rightarrow> IfAddrs" where
  "ExcludeIfs_rfc env inputIfAddrs [] excludedIfs = excludedIfs"
| "ExcludeIfs_rfc env inputIfAddrs (rfcStr # rfcs) excludedIfs =
     (case ParseUint rfcStr of
        (rfc, None) \<Rightarrow> ExcludeIfs_rfc env inputIfAddrs rfcs excludedIfs
      | (rfc, Some err) \<Rightarrow>
          (case IfByRFC env rfc inputIfAddrs of
             Inl err \<Rightarrow> ExcludeIfs_rfc env inputIfAddrs rfcs excludedIfs
           | Inr (matched, excludedRFCIfs) \<Rightarrow>
               ExcludeIfs_rfc env inputIfAddrs rfcs (excludedIfs @ excludedRFCIfs)))"

text \<open>Both functions end with \<open>if err != nil { return IfAddrs{} }\<close>: an error of the
  selected filter gives the empty list.\<close>

definition included :: "error + IfAddrs \<times> IfAddrs \<Rightarrow> IfAddrs" where
  "included r = (case r of Inl err \<Rightarrow> [] | Inr (includedIfs, remainder) \<Rightarrow> includedIfs)"

definition excluded :: "error + IfAddrs \<times> IfAddrs \<Rightarrow> IfAddrs" where
  "excluded r = (case r of Inl err \<Rightarrow> [] | Inr (matched, excludedIfs) \<Rightarrow> excludedIfs)"

definition IncludeIfs :: "'net Env \<Rightarrow> string \<Rightarrow> string \<Rightarrow> IfAddrs \<Rightarrow> IfAddrs" where
  "IncludeIfs env selectorName selectorParam inputIfAddrs =
     (let sel = ToLower selectorName in
      if sel = ''address'' then included (IfByAddress env selectorParam inputIfAddrs)
      else if sel = ''name'' then included (IfByName env selectorParam inputIfAddrs)
      else if sel = ''port'' then included (IfByPort env selectorParam inputIfAddrs)
      else if sel = ''rfc'' then
        IncludeIfs_rfc env inputIfAddrs (Split (CHR '','') selectorParam) []
      else if sel = ''size'' then
        (case ParseUint selectorParam of
           (maskSize, Some err) \<Rightarrow> []
         | (maskSize, None) \<Rightarrow> included (IfByMaskSize env maskSize inputIfAddrs))
      else if sel = ''type'' then included (IfByType env selectorParam inputIfAddrs)
      else [])"

definition ExcludeIfs :: "'net Env \<Rightarrow> string \<Rightarrow> string \<Rightarrow> IfAddrs \<Rightarrow> IfAddrs" where
  "ExcludeIfs env selectorName selectorParam inputIfAddrs =
     (let sel = ToLower selectorName in
      if sel = ''address'' then excluded (IfByAddress env selectorParam inputIfAddrs)
      else if sel = ''name'' then excluded (IfByName env selectorParam inputIfAddrs)
      else if sel = ''port'' then excluded (IfByPort env selectorParam inputIfAddrs)
      else if sel = ''rfc'' then
        ExcludeIfs_rfc env inputIfAddrs (Split (CHR '','') selectorParam) []
      else if sel = ''size'' then
        (case ParseUint selectorParam of
           (maskSize, Some err) \<Rightarrow> []
         | (maskSize, None) \<Rightarrow> excluded (IfByMaskSize env maskSize inputIfAddrs))
      else if sel = ''type'' then excluded (IfByType env selectorParam inputIfAddrs)
      else [])"

subsection \<open>Removing duplicates\<close>

text \<open>The loop of \<open>UniqueIfAddrsBy\<close>, with \<open>lastMatch\<close> as its state. The two cases of
  its second \<open>switch\<close> are \<open>lastMatch == "" || lastMatch != out\<close>, which keeps the
  element and stores \<open>out\<close>, and \<open>lastMatch == out\<close>, which drops the element.\<close>

fun UniqueIfAddrsBy_loop ::
  "'net Env \<Rightarrow> string \<Rightarrow> string \<Rightarrow> string \<Rightarrow> IfAddrs \<Rightarrow> IfAddrs" where
  "UniqueIfAddrsBy_loop env attrName selectorName lastMatch [] = []"
| "UniqueIfAddrsBy_loop env attrName selectorName lastMatch (ifAddr # rest) =
     (let out =
        (if attrName = ''address'' then SockAddr_String env (SockAddr ifAddr)
         else if attrName = ''name'' then Name (Interface ifAddr)
         else ''<unsupported method '' @ quote_plus env selectorName @ ''>'')
      in if lastMatch = [] \<or> lastMatch \<noteq> out
         then ifAddr # UniqueIfAddrsBy_loop env attrName selectorName out rest
         else UniqueIfAddrsBy_loop env attrName selectorName lastMatch rest)"

definition UniqueIfAddrsBy :: "'net Env \<Rightarrow> string \<Rightarrow> IfAddrs \<Rightarrow> IfAddrs" where
  "UniqueIfAddrsBy env selectorName inputIfAddrs =
     UniqueIfAddrsBy_loop env (ToLower selectorName) selectorName [] inputIfAddrs"

subsection \<open>Sorting by several keys\<close>

text \<open>\<open>multiIfAddrSorter.Less\<close> on the two elements it reads. Its loop tries all
  comparisons but the last: \<open>-1\<close> and \<open>1\<close> decide, any other value passes on to the next
  comparison. The last comparison decides alone, and a tie is \<open>false\<close>. With no
  comparison at all the loop does not run and \<open>ms.cmp[k]\<close> reads index 0 of an empty
  slice, which panics.\<close>

fun Less :: "CmpIfAddrFunc list \<Rightarrow> IfAddr \<Rightarrow> IfAddr \<Rightarrow> error + bool" where
  "Less [] p q = Inl PanicIndexOutOfRange"
| "Less [cmp] p q = Inr (cmp p q = - 1)"
| "Less (cmp # cmps) p q =
     (let x = cmp p q in
      if x = - 1 then Inr True
      else if x = 1 then Inr False
      else Less cmps p q)"

text \<open>
  \<open>multiIfAddrSorter.Sort\<close> hands the slice to \<open>sort.Sort\<close> of Go's library, with
  \<open>Less\<close> as the order and \<open>Swap\<close> exchanging two elements. On a slice of at most 6
  elements every release of the library sorts by its \<open>insertionSort\<close> alone:
  \<^verbatim>\<open>for i := a + 1; i < b; i++ { for j := i; j > a && data.Less(j, j-1); j-- { data.Swap(j, j-1) } }\<close>
  The inner loop is \<open>insert_left\<close>: the element \<open>x\<close> moves to the left of its left
  neighbour as long as \<open>Less\<close> says so. What the library does on a longer slice
  differs between releases (quicksort with a pass of gap 6, pattern-defeating quicksort;
  it does not promise a stable order) and is passed in as \<open>long\<close>.
\<close>

function insert_left :: "('a \<Rightarrow> 'a \<Rightarrow> error + bool) \<Rightarrow> 'a list \<Rightarrow> 'a \<Rightarrow> error + 'a list" where
  "insert_left lt pre x =
     (if pre = [] then Inr [x]
      else case lt x (last pre) of
             Inl err \<Rightarrow> Inl err
           | Inr b \<Rightarrow>
               if b then (case insert_left lt (butlast pre) x of
                            Inl err \<Rightarrow> Inl err
                          | Inr pre' \<Rightarrow> Inr (pre' @ [last pre]))
               else Inr (pre @ [x]))"
  by pat_completeness auto
termination
  by (relation "measure (\<lambda>(lt, pre, x). length pre)") auto

fun insertionSort_from :: "('a \<Rightarrow> 'a \<Rightarrow> error + bool) \<Rightarrow> 'a list \<Rightarrow> 'a list \<Rightarrow> error + 'a list" where
  "insertionSort_from lt pre [] = Inr pre"
| "insertionSort_from lt pre (x # rest) =
     (case insert_left lt pre x of
        Inl err \<Rightarrow> Inl err
      | Inr pre' \<Rightarrow> insertionSort_from lt pre' rest)"

definition insertionSort :: "('a \<Rightarrow> 'a \<Rightarrow> error + bool) \<Rightarrow> 'a list \<Rightarrow> error + 'a list" where
  "insertionSort lt data = insertionSort_from lt [] data"

definition sort_Sort ::
  "(('a \<Rightarrow> 'a \<Rightarrow> error + bool) \<Rightarrow> 'a list \<Rightarrow> error + 'a list)
   \<Rightarrow> ('a \<Rightarrow> 'a \<Rightarrow> error + bool) \<Rightarrow> 'a list \<Rightarrow> error + 'a list" where
  "sort_Sort long lt data =
     (if length data \<le> 6 then insertionSort lt data else long lt data)"



text \<open>\<open>OrderedIfAddrBy(cmpFuncs...).Sort(ifAddrs)\<close>: the sorted slice, or the panic of
  \<open>Less\<close>.\<close>

definition Sort ::
  "((IfAddr \<Rightarrow> IfAddr \<Rightarrow> error + bool) \<Rightarrow> IfAddrs \<Rightarrow> error + IfAddrs)
   \<Rightarrow> CmpIfAddrFunc list \<Rightarrow> IfAddrs \<Rightarrow> error + IfAddrs" where
  "Sort long cmp ifAddrs = sort_Sort long (Less cmp) ifAddrs"

text \<open>The \<open>switch\<close> of \<open>SortIfBy\<close> on one clause, and its loop over the clauses, which
  gives up at the first clause that names no sort key.\<close>

definition sortFunc :: "'net Env \<Rightarrow> string \<Rightarrow> CmpIfAddrFunc option" where
  "sortFunc env clause =
     (let c = ToLower clause in
      if c = ''address'' then Some (AscIfAddress env)
      else if c = ''name'' then Some AscIfName
      else if c = ''port'' then Some (AscIfPort env)
      else if c = ''private'' then Some (AscIfPrivate env)
      else if c = ''size'' then Some (AscIfNetworkSize env)
      else if c = ''type'' then Some (AscIfType env)
      else None)"

fun sortFuncs :: "'net Env \<Rightarrow> string list \<Rightarrow> CmpIfAddrFunc list option" where
  "sortFuncs env [] = Some []"
| "sortFuncs env (clause # clauses) =
     (case sortFunc env clause of
        None \<Rightarrow> None
      | Some f \<Rightarrow> (case sortFuncs env clauses of None \<Rightarrow> None | Some fs \<Rightarrow> Some (f # fs)))"

definition SortIfBy ::
  "'net Env \<Rightarrow> ((IfAddr \<Rightarrow> IfAddr \<Rightarrow> error + bool) \<Rightarrow> IfAddrs \<Rightarrow> error + IfAddrs)
   \<Rightarrow> string \<Rightarrow> IfAddrs \<Rightarrow> error + IfAddrs" where
  "SortIfBy env long selectorParam inputIfAddrs =
     (case sortFuncs env (Split (CHR '','') selectorParam) of
        None \<Rightarrow> Inr []
      | Some fs \<Rightarrow> Sort long fs inputIfAddrs)"




subsection \<open>The default route\<close>

text \<open>The loop of \<open>parseLinuxDefaultIfName\<close> over the lines.\<close>

fun parseLinux_lines :: "string list \<Rightarrow> error + string" where
  "parseLinux_lines [] = Inl (Error ''No default interface found'')"
| "parseLinux_lines (line # lines) =
     (let kvs = SplitN (CHR '' '') line 5 in
      if length kvs \<noteq> 5 then parseLinux_lines lines
      else if kvs ! 0 = ''default'' \<and> kvs ! 1 = ''via'' \<and> kvs ! 3 = ''dev''
           then Inr (TrimSpace (kvs ! 4))
           else parseLinux_lines lines)"

definition parseLinuxDefaultIfName :: "string \<Rightarrow> error + string" where
  "parseLinuxDefaultIfName routeOut = parseLinux_lines (Split (CHR 0x0A) routeOut)"

section \<open>An environment and interface addresses for the examples\<close>

text \<open>Stand-ins for what is passed in, used where a statement is evaluated on concrete
  input: a registry that holds the three private networks under 1918, membership of an
  IPv4 address in an IPv4 network, regular expressions that match one literal string,
  and \<open>%+q\<close> on a string that needs no escape.\<close>

definition private_nets :: "IPv4Addr list" where
  "private_nets =
     [\<lparr>Address = 0x0a000000, Mask = 0xff000000, Port = 0\<rparr>,
      \<lparr>Address = 0xac100000, Mask = 0xfff00000, Port = 0\<rparr>,
      \<lparr>Address = 0xc0a80000, Mask = 0xffff0000, Port = 0\<rparr>]"

definition example_env :: "IPv4Addr Env" where
  "example_env =
     \<lparr>regexp_Compile = (\<lambda>re. Some (\<lambda>s. s = re)),
      rfcNetMap = (\<lambda>rfc. if rfc = 1918 then Some private_nets else None),
      Contains = (\<lambda>net sa. case sa of
                    SockIPv4 a \<Rightarrow> Address a AND Mask net = NetworkAddress net
                  | _ \<Rightarrow> False),
      IPv6Addr_String = (\<lambda>a. ''::''),
      IPv6Addr_Maskbits = (\<lambda>a. 128),
      UnixSock_String = path,
      SockAddrType_String = (\<lambda>t. if t = TypeIPv4 then ''IPv4'' else if t = TypeIPv6 then ''IPv6''
                                   else ''UNIX''),
      AscAddress = (\<lambda>a b. 0),
      AscNetworkSize = (\<lambda>a b. 0),
      AscPort = (\<lambda>a b. 0),
      AscPrivate = (\<lambda>a b. 0),
      AscType = (\<lambda>a b. if SockAddr_Type a < SockAddr_Type b then - 1
                         else if SockAddr_Type b < SockAddr_Type a then 1 else 0),
      quote_plus = (\<lambda>s. CHR 0x22 # s @ [CHR 0x22])\<rparr>"

definition eth :: "string \<Rightarrow> Interface" where
  "eth name = \<lparr>Index = 1, MTU = 1500, Name = name, HardwareAddr = [], Flags = 0\<rparr>"

definition if_public :: IfAddr where
  "if_public = \<lparr>SockAddr = SockIPv4 \<lparr>Address = 0x08080808, Mask = 0xffffffff, Port = 0\<rparr>,
                 Interface = eth ''eth0''\<rparr>"

definition if_private :: IfAddr where
  "if_private = \<lparr>SockAddr = SockIPv4 \<lparr>Address = 0xc0a80101, Mask = 0xffffff00, Port = 0\<rparr>,
                  Interface = eth ''eth1''\<rparr>"

definition if_private2 :: IfAddr where
  "if_private2 = \<lparr>SockAddr = SockIPv4 \<lparr>Address = 0xc0a80102, Mask = 0xffffff00, Port = 0\<rparr>,
                   Interface = eth ''eth1''\<rparr>"







declare FormatUint.simps [simp del]

declare insert_left.simps [simp del]

declare ToLower.simps [simp del]

section \<open>Masks, decimal and hexadecimal forms\<close>

lemma upt8: "[0..<8] = [0,1,2,3,4,5,6,7::nat]"
  by code_simp

lemma upt32: "[0..<32] = [0,1,2,3,4,5,6,7,8,9,10,11,12,13,14,15,16,17,18,19,20,21,22,23,24,25,26,27,28,29,30,31::nat]"
  by code_simp

lemma mask_bits_msb_PutUint32:
  "mask_bits_msb (PutUint32 m) = map (bit m) (rev [0..<32])"
  by (simp add: mask_bits_msb_def PutUint32_def upt8 upt32 bit_ucast_iff bit_drop_bit_eq)

lemma leading_ones_le: "leading_ones bs \<le> length bs"
  by (induction bs) auto

lemma leading_ones_full: "leading_ones bs = length bs \<longleftrightarrow> (\<forall>b\<in>set bs. b)"
  using leading_ones_le
  by (induction bs) (auto simp: not_less_eq_eq Suc_n_not_le_n)

lemma leading_ones_take: "take (leading_ones bs) bs = replicate (leading_ones bs) True"
  by (induction bs) auto

lemma drop_all_False: "\<not> list_ex id bs \<Longrightarrow> bs = replicate (length bs) False"
  by (induction bs) auto

lemma simpleMaskLength_Some:
  assumes "simpleMaskLength m = Some n"
  shows "mask_bits_msb m = replicate n True @ replicate (length (mask_bits_msb m) - n) False"
proof -
  let ?bs = "mask_bits_msb m"
  from assms have n: "n = leading_ones ?bs" and z: "\<not> list_ex id (drop n ?bs)"
    by (auto simp: simpleMaskLength_def Let_def split: if_splits)
  have "?bs = take n ?bs @ drop n ?bs" by simp
  also have "take n ?bs = replicate n True" using n leading_ones_take by simp
  also have "drop n ?bs = replicate (length ?bs - n) False"
    using drop_all_False [OF z] by simp
  finally show ?thesis .
qed

lemma word32_eq_bits:
  fixes a b :: "32 word"
  assumes "map (bit a) (rev [0..<32]) = map (bit b) (rev [0..<32])"
  shows "a = b"
proof (rule bit_word_eqI)
  fix n assume "n < LENGTH(32)"
  then have "n \<in> set (rev [0..<32])" by simp
  with assms show "bit a n = bit b n"
    by (metis (no_types, lifting) map_eq_conv)
qed

lemma PutUint32_inj: "PutUint32 a = PutUint32 b \<Longrightarrow> a = b"
  by (rule word32_eq_bits) (simp flip: mask_bits_msb_PutUint32)

lemma Maskbits_32: "Maskbits a = 32 \<longleftrightarrow> Mask a = IPv4HostMask"
proof
  assume h: "Maskbits a = 32"
  let ?bs = "mask_bits_msb (PutUint32 (Mask a))"
  have len: "length ?bs = 32" by (simp add: mask_bits_msb_PutUint32)
  from h have "leading_ones ?bs = 32"
    by (auto simp: Maskbits_def IPMask_Size_def simpleMaskLength_def Let_def split: option.splits if_splits)
  with len have "\<forall>b\<in>set ?bs. b" using leading_ones_full [of ?bs] by simp
  then have all: "\<And>n. n < 32 \<Longrightarrow> bit (Mask a) n"
    by (simp add: mask_bits_msb_PutUint32)
  have "Mask a = - 1"
    by (rule bit_word_eqI) (simp add: all)
  then show "Mask a = IPv4HostMask" by (simp add: IPv4HostMask_def)
next
  assume "Mask a = IPv4HostMask"
  then show "Maskbits a = 32"
    by (simp add: Maskbits_def IPMask_Size_def simpleMaskLength_def Let_def IPv4HostMask_def
        mask_bits_msb_def PutUint32_def upt8)
qed

lemma FormatUint_digits: "c \<in> set (FormatUint n) \<Longrightarrow> 48 \<le> (of_char c :: nat) \<and> (of_char c :: nat) \<le> 57"
proof (induction n rule: FormatUint.induct)
  case (1 n)
  show ?case
  proof (cases "n < 10")
    case True
    with "1.prems" show ?thesis by (simp add: FormatUint.simps [of n])
  next
    case False
    with "1.prems" have "c \<in> set (FormatUint (n div 10)) \<or> c = char_of (48 + n mod 10)"
      by (auto simp: FormatUint.simps [of n])
    then show ?thesis
    proof
      assume "c \<in> set (FormatUint (n div 10))"
      with "1.IH" False show ?thesis by simp
    next
      assume c: "c = char_of (48 + n mod 10)"
      have "n mod 10 < 10" by simp
      then have "(48 + n mod 10) mod 256 = 48 + n mod 10" by simp
      with c show ?thesis by simp
    qed
  qed
qed

lemma FormatUint_nonempty: "FormatUint n \<noteq> []"
  by (subst FormatUint.simps) simp

lemma decode_FormatUint: "decode_dec (FormatUint n) = n"
proof (induction n rule: FormatUint.induct)
  case (1 n)
  show ?case
  proof (cases "n < 10")
    case True
    then have "(48 + n) mod 256 = 48 + n" by simp
    with True show ?thesis by (simp add: decode_dec_def FormatUint.simps [of n])
  next
    case False
    have "n mod 10 < 10" by simp
    then have m: "(48 + n mod 10) mod 256 = 48 + n mod 10" by simp
    from False "1.IH" have "decode_dec (FormatUint (n div 10)) = n div 10" by simp
    with False m show ?thesis by (simp add: decode_dec_def FormatUint.simps [of n])
  qed
qed

lemma FormatUint_inj: "FormatUint a = FormatUint b \<Longrightarrow> a = b"
  by (metis decode_FormatUint)

lemma FormatUint_length_le2:
  assumes "n < 100"
  shows "length (FormatUint n) \<le> 2"
proof -
  from assms have "n div 10 < 10" by simp
  then show ?thesis
    by (simp add: FormatUint.simps [of n] FormatUint.simps [of "n div 10"])
qed

lemma slash_notin_FormatUint: "CHR ''/'' \<notin> set (FormatUint n)"
  using FormatUint_digits [of "CHR ''/''" n] by auto

lemma slash_notin_IP_String: "CHR ''/'' \<notin> set (IP_String (PutUint32 x))"
  by (simp add: IP_String_def PutUint32_def slash_notin_FormatUint)

lemma split_at_sep:
  assumes "c \<notin> set xs" "c \<notin> set xs'" "xs @ c # ys = xs' @ c # ys'"
  shows "xs = xs' \<and> ys = ys'"
proof -
  have "takeWhile (\<lambda>x. x \<noteq> c) (xs @ c # ys) = xs" using assms(1) by (auto simp: takeWhile_tail)
  moreover have "takeWhile (\<lambda>x. x \<noteq> c) (xs' @ c # ys') = xs'" using assms(2) by (auto simp: takeWhile_tail)
  ultimately have "xs = xs'" using assms(3) by simp
  with assms(3) show ?thesis by simp
qed

lemma of_char_hexdigit: "a < 16 \<Longrightarrow> (of_char (hexdigit a) :: nat) = (if a < 10 then 48 + a else 87 + a)"
  by (simp add: hexdigit_def)

lemma hexdigit_inj:
  assumes "a < 16" "b < 16" "hexdigit a = hexdigit b"
  shows "a = b"
proof -
  have "(of_char (hexdigit a) :: nat) = of_char (hexdigit b)" using assms(3) by simp
  then show ?thesis using assms(1,2) by (simp add: of_char_hexdigit split: if_splits)
qed

lemma byte_hex_inj:
  fixes a b :: "8 word"
  assumes "hexdigit (unat a div 16) = hexdigit (unat b div 16)"
      and "hexdigit (unat a mod 16) = hexdigit (unat b mod 16)"
  shows "a = b"
proof -
  have la: "unat a < 256" using unsigned_less [of a] by simp
  have lb: "unat b < 256" using unsigned_less [of b] by simp
  have d: "unat a div 16 = unat b div 16"
    using assms(1) la lb by (intro hexdigit_inj) simp_all
  have m: "unat a mod 16 = unat b mod 16"
    using assms(2) by (intro hexdigit_inj) simp_all
  have "unat a = unat b"
    using d m by (metis div_mult_mod_eq)
  then show ?thesis by (rule unsigned_word_eqI)
qed

lemma IPMask_String_inj:
  "IPMask_String (PutUint32 a) = IPMask_String (PutUint32 b) \<Longrightarrow> a = b"
  by (rule PutUint32_inj) (auto simp: IPMask_String_def PutUint32_def intro: byte_hex_inj)

lemma length_IPMask_String: "length (IPMask_String (PutUint32 a)) = 8"
  by (simp add: IPMask_String_def PutUint32_def)

lemma simpleMaskLength_le: "simpleMaskLength (PutUint32 m) = Some l \<Longrightarrow> l \<le> 32"
  using leading_ones_le [of "mask_bits_msb (PutUint32 m)"]
  by (auto simp: simpleMaskLength_def Let_def mask_bits_msb_PutUint32 split: if_splits)

lemma simpleMaskLength_inj:
  assumes "simpleMaskLength (PutUint32 a) = Some l" "simpleMaskLength (PutUint32 b) = Some l"
  shows "a = b"
proof (rule word32_eq_bits)
  have "mask_bits_msb (PutUint32 a) = mask_bits_msb (PutUint32 b)"
    using simpleMaskLength_Some [OF assms(1)] simpleMaskLength_Some [OF assms(2)]
    by (simp add: mask_bits_msb_PutUint32)
  then show "map (bit a) (rev [0..<32]) = map (bit b) (rev [0..<32])"
    by (simp only: mask_bits_msb_PutUint32)
qed

lemma IPNet_String_mask_inj:
  assumes "IPNet_String (PutUint32 x) (PutUint32 a) = IPNet_String (PutUint32 y) (PutUint32 b)"
  shows "a = b"
proof -
  define sa where "sa = (case simpleMaskLength (PutUint32 a) of
     None \<Rightarrow> IPMask_String (PutUint32 a) | Some l \<Rightarrow> FormatUint l)"
  define sb where "sb = (case simpleMaskLength (PutUint32 b) of
     None \<Rightarrow> IPMask_String (PutUint32 b) | Some l \<Rightarrow> FormatUint l)"
  have ea: "IPNet_String (PutUint32 x) (PutUint32 a) = IP_String (PutUint32 x) @ CHR ''/'' # sa"
    by (simp add: IPNet_String_def sa_def split: option.splits)
  have eb: "IPNet_String (PutUint32 y) (PutUint32 b) = IP_String (PutUint32 y) @ CHR ''/'' # sb"
    by (simp add: IPNet_String_def sb_def split: option.splits)
  have s: "sa = sb"
    using split_at_sep [OF slash_notin_IP_String slash_notin_IP_String, of x sa y sb] assms ea eb
    by simp
  show ?thesis
  proof (cases "simpleMaskLength (PutUint32 a)")
    case None
    note na = this
    show ?thesis
    proof (cases "simpleMaskLength (PutUint32 b)")
      case None
      with na s show ?thesis by (simp add: sa_def sb_def IPMask_String_inj)
    next
      case (Some l)
      then have "l < 100" using simpleMaskLength_le [of b l] by simp
      then have "length sb \<le> 2" using Some by (simp add: sb_def FormatUint_length_le2)
      moreover have "length sa = 8" using na by (simp add: sa_def length_IPMask_String)
      ultimately show ?thesis using s by simp
    qed
  next
    case (Some l)
    note sa' = this
    then have l: "l < 100" using simpleMaskLength_le [of a l] by simp
    show ?thesis
    proof (cases "simpleMaskLength (PutUint32 b)")
      case None
      then have "length sb = 8" by (simp add: sb_def length_IPMask_String)
      moreover have "length sa \<le> 2" using sa' l by (simp add: sa_def FormatUint_length_le2)
      ultimately show ?thesis using s by simp
    next
      case (Some k)
      with sa' s have "l = k" by (simp add: sa_def sb_def FormatUint_inj)
      with sa' Some show ?thesis using simpleMaskLength_inj by simp
    qed
  qed
qed

lemma Equal_iff:
  "Equal a (SockIPv4 b) \<longleftrightarrow> Port a = Port b \<and> Address a = Address b \<and> Mask a = Mask b"
  by (auto simp: Equal_def NetIPNet_def NetIPMask_def NetworkAddress_def dest: IPNet_String_mask_inj)

section \<open>Evaluation on concrete addresses\<close>

lemmas mask_eval = Maskbits_def IPMask_Size_def simpleMaskLength_def Let_def mask_bits_msb_def
  PutUint32_def upt8

lemma host_port_nonempty: "host_port a \<noteq> []"
  by (simp add: host_port_def)

lemma ip_1234_bytes: "IP_String (PutUint32 0x01020304) = ''1.2.3.4''"
  by code_simp

lemma ip_1234: "IP_String (NetIP \<lparr>Address = 0x01020304, Mask = m, Port = p\<rparr>) = ''1.2.3.4''"
  by (simp add: NetIP_def ip_1234_bytes)

lemma FormatUint_evals: "FormatUint 0 = ''0''" "FormatUint 24 = ''24''" "FormatUint 80 = ''80''"
  by code_simp+

section \<open>Usable addresses of point-to-point and host networks\<close>

text \<open>
  Claim C3, as amended. For every IPv4 address whose \<open>Maskbits\<close> is 31,
  \<open>FirstUsable\<close> carries the address (and the zero port) of \<open>Network\<close> with no
  increment, and \<open>LastUsable\<close> is the same value as \<open>Broadcast\<close>, with no decrement.
  \<open>FirstUsable\<close> has the host mask while \<open>Network\<close> keeps the receiver's mask, which
  is not the host mask; the two values agree in address and port only.
\<close>

theorem FirstUsable_31_address_of_Network:
  assumes "Maskbits a = 31"
  shows "Address (FirstUsable a) = Address (Network a)
       \<and> Port (FirstUsable a) = Port (Network a)
       \<and> Mask (FirstUsable a) = IPv4HostMask \<and> Mask (Network a) = Mask a
       \<and> Mask a \<noteq> IPv4HostMask
       \<and> LastUsable a = Broadcast a"
proof -
  from assms have "Maskbits a \<noteq> 32" by simp
  then have "Mask a \<noteq> IPv4HostMask" by (simp add: Maskbits_32)
  with assms show ?thesis
    by (simp add: FirstUsable_def LastUsable_def Network_def Broadcast_def)
qed

theorem FirstUsable_31_witness:
  "Maskbits \<lparr>Address = 0x0a000001, Mask = 0xfffffffe, Port = 0\<rparr> = 31
   \<and> Address (FirstUsable \<lparr>Address = 0x0a000001, Mask = 0xfffffffe, Port = 0\<rparr>) = 0x0a000000
   \<and> LastUsable \<lparr>Address = 0x0a000001, Mask = 0xfffffffe, Port = 0\<rparr>
       = \<lparr>Address = 0x0a000001, Mask = 0xffffffff, Port = 0\<rparr>"
proof -
  let ?a = "\<lparr>Address = 0x0a000001, Mask = 0xfffffffe, Port = 0\<rparr> :: IPv4Addr"
  have m: "Maskbits ?a = 31"
    by (simp add: mask_eval)
  from FirstUsable_31_address_of_Network [OF m] m
  show ?thesis
    by (simp add: Network_def Broadcast_def NetworkAddress_def BroadcastAddress_def IPv4HostMask_def)
qed

theorem FirstUsable_31_counterexample:
  "Maskbits \<lparr>Address = 0x0a000000, Mask = 0xfffffffe, Port = 0\<rparr> = 31
   \<and> FirstUsable \<lparr>Address = 0x0a000000, Mask = 0xfffffffe, Port = 0\<rparr>
       \<noteq> Network \<lparr>Address = 0x0a000000, Mask = 0xfffffffe, Port = 0\<rparr>"
  by (simp add: mask_eval FirstUsable_def Network_def IPv4HostMask_def)

text \<open>
  Claim C4, as amended. For every IPv4 address whose \<open>Maskbits\<close> is 32, \<open>FirstUsable\<close>
  and \<open>LastUsable\<close> are the same value; \<open>Host\<close> has their address and their mask and
  keeps the receiver's port, which they set to 0, so \<open>Host\<close> equals them exactly when
  the receiver's port is 0.
\<close>

theorem host32_usable_equal:
  assumes "Maskbits a = 32"
  shows "FirstUsable a = LastUsable a
       \<and> Address (Host a) = Address (FirstUsable a) \<and> Mask (Host a) = Mask (FirstUsable a)
       \<and> Port (Host a) = Port a \<and> Port (FirstUsable a) = 0
       \<and> (Host a = FirstUsable a \<longleftrightarrow> Port a = 0)"
proof -
  from assms have m: "Mask a = - 1" by (simp add: Maskbits_32 IPv4HostMask_def)
  show ?thesis using assms
    by (auto simp: FirstUsable_def LastUsable_def Host_def NetworkAddress_def BroadcastAddress_def m)
qed

theorem host32_usable_equal_witness:
  "Maskbits \<lparr>Address = 0x01020304, Mask = 0xffffffff, Port = 0\<rparr> = 32
   \<and> FirstUsable \<lparr>Address = 0x01020304, Mask = 0xffffffff, Port = 0\<rparr>
       = \<lparr>Address = 0x01020304, Mask = 0xffffffff, Port = 0\<rparr>
   \<and> LastUsable \<lparr>Address = 0x01020304, Mask = 0xffffffff, Port = 0\<rparr>
       = \<lparr>Address = 0x01020304, Mask = 0xffffffff, Port = 0\<rparr>
   \<and> Host \<lparr>Address = 0x01020304, Mask = 0xffffffff, Port = 0\<rparr>
       = \<lparr>Address = 0x01020304, Mask = 0xffffffff, Port = 0\<rparr>"
proof -
  let ?a = "\<lparr>Address = 0x01020304, Mask = 0xffffffff, Port = 0\<rparr> :: IPv4Addr"
  have m: "Maskbits ?a = 32" by (simp add: mask_eval)
  have h: "Host ?a = ?a" by (simp add: Host_def IPv4HostMask_def)
  from host32_usable_equal [OF m] have "FirstUsable ?a = LastUsable ?a" "Host ?a = FirstUsable ?a"
    by simp_all
  with m h show ?thesis by simp
qed

theorem host32_usable_equal_counterexample:
  "Maskbits \<lparr>Address = 0x01020304, Mask = 0xffffffff, Port = 80\<rparr> = 32
   \<and> FirstUsable \<lparr>Address = 0x01020304, Mask = 0xffffffff, Port = 80\<rparr>
       \<noteq> Host \<lparr>Address = 0x01020304, Mask = 0xffffffff, Port = 80\<rparr>"
  by (simp add: mask_eval FirstUsable_def Host_def)

section \<open>Dial and listen arguments\<close>

text \<open>
  Claim C5, as amended. Every builder returns its transport name (\<open>tcp4\<close> for the
  stream builders, \<open>udp4\<close> for the packet builders) and no error value. The two dial
  builders return the empty argument string exactly when the mask is not the host mask
  or the port is zero; the two listen builders return it exactly when the mask is not
  the host mask, whatever the port. A non-empty argument string is the address in
  dotted decimal, a colon and the port in decimal.
\<close>

theorem dial_listen_args:
  "fst (DialStreamArgs a) = ''tcp4'' \<and> fst (DialPacketArgs a) = ''udp4''
   \<and> fst (ListenStreamArgs a) = ''tcp4'' \<and> fst (ListenPacketArgs a) = ''udp4''
   \<and> (snd (DialStreamArgs a) = [] \<longleftrightarrow> Mask a \<noteq> IPv4HostMask \<or> Port a = 0)
   \<and> (snd (DialPacketArgs a) = [] \<longleftrightarrow> Mask a \<noteq> IPv4HostMask \<or> Port a = 0)
   \<and> (snd (ListenStreamArgs a) = [] \<longleftrightarrow> Mask a \<noteq> IPv4HostMask)
   \<and> (snd (ListenPacketArgs a) = [] \<longleftrightarrow> Mask a \<noteq> IPv4HostMask)
   \<and> (snd (DialStreamArgs a) \<noteq> [] \<longrightarrow>
        snd (DialStreamArgs a) = IP_String (NetIP a) @ '':'' @ FormatUint (unat (Port a)))
   \<and> (snd (DialPacketArgs a) \<noteq> [] \<longrightarrow>
        snd (DialPacketArgs a) = IP_String (NetIP a) @ '':'' @ FormatUint (unat (Port a)))
   \<and> (snd (ListenStreamArgs a) \<noteq> [] \<longrightarrow>
        snd (ListenStreamArgs a) = IP_String (NetIP a) @ '':'' @ FormatUint (unat (Port a)))
   \<and> (snd (ListenPacketArgs a) \<noteq> [] \<longrightarrow>
        snd (ListenPacketArgs a) = IP_String (NetIP a) @ '':'' @ FormatUint (unat (Port a)))"
  using host_port_nonempty [of a]
  by (simp add: DialStreamArgs_def DialPacketArgs_def ListenStreamArgs_def ListenPacketArgs_def)
     (simp add: host_port_def)

theorem dial_listen_args_witness:
  "DialStreamArgs \<lparr>Address = 0x01020304, Mask = 0xffffffff, Port = 80\<rparr> = (''tcp4'', ''1.2.3.4:80'')
   \<and> ListenPacketArgs \<lparr>Address = 0x01020304, Mask = 0xffffffff, Port = 80\<rparr> = (''udp4'', ''1.2.3.4:80'')
   \<and> DialPacketArgs \<lparr>Address = 0x01020304, Mask = 0xffffff00, Port = 80\<rparr> = (''udp4'', '''')
   \<and> ListenStreamArgs \<lparr>Address = 0x01020304, Mask = 0xffffff00, Port = 80\<rparr> = (''tcp4'', '''')"
proof -
  let ?a = "\<lparr>Address = 0x01020304, Mask = 0xffffffff, Port = 80\<rparr> :: IPv4Addr"
  let ?b = "\<lparr>Address = 0x01020304, Mask = 0xffffff00, Port = 80\<rparr> :: IPv4Addr"
  have "snd (DialStreamArgs ?a) = ''1.2.3.4:80''" "fst (DialStreamArgs ?a) = ''tcp4''"
       "snd (ListenPacketArgs ?a) = ''1.2.3.4:80''" "fst (ListenPacketArgs ?a) = ''udp4''"
    using dial_listen_args [of ?a] by (auto simp: IPv4HostMask_def ip_1234 FormatUint_evals)
  moreover have "snd (DialPacketArgs ?b) = []" "fst (DialPacketArgs ?b) = ''udp4''"
       "snd (ListenStreamArgs ?b) = []" "fst (ListenStreamArgs ?b) = ''tcp4''"
    using dial_listen_args [of ?b] by (auto simp: IPv4HostMask_def)
  ultimately show ?thesis by (simp add: prod_eq_iff)
qed

theorem dial_listen_args_counterexample:
  "Port \<lparr>Address = 0x01020304, Mask = 0xffffffff, Port = 0\<rparr> = 0
   \<and> ListenStreamArgs \<lparr>Address = 0x01020304, Mask = 0xffffffff, Port = 0\<rparr> = (''tcp4'', ''1.2.3.4:0'')
   \<and> ListenPacketArgs \<lparr>Address = 0x01020304, Mask = 0xffffffff, Port = 0\<rparr> = (''udp4'', ''1.2.3.4:0'')"
  by (simp add: ListenStreamArgs_def ListenPacketArgs_def IPv4HostMask_def host_port_def ip_1234
      FormatUint_evals)

section \<open>The string form\<close>

text \<open>
  Claim C7. For every IPv4 address, \<open>String\<close> is \<open>ip:port\<close> when the port is not zero,
  the bare \<open>ip\<close> when the port is zero and the mask is the host mask, and
  \<open>ip/prefixlen\<close> otherwise, the prefix length being \<open>Maskbits\<close>.
\<close>

theorem String_forms:
  "IPv4Addr_String a =
     (if Port a \<noteq> 0 then IP_String (NetIP a) @ '':'' @ FormatUint (unat (Port a))
      else if Mask a = IPv4HostMask then IP_String (NetIP a)
      else IP_String (NetIP a) @ ''/'' @ FormatUint (Maskbits a))"
  by (simp add: IPv4Addr_String_def host_port_def Maskbits_32)

theorem String_forms_witness:
  "IPv4Addr_String \<lparr>Address = 0x01020304, Mask = 0xffffff00, Port = 80\<rparr> = ''1.2.3.4:80''
   \<and> IPv4Addr_String \<lparr>Address = 0x01020304, Mask = 0xffffffff, Port = 0\<rparr> = ''1.2.3.4''
   \<and> IPv4Addr_String \<lparr>Address = 0x01020304, Mask = 0xffffff00, Port = 0\<rparr> = ''1.2.3.4/24''"
proof -
  have m: "Maskbits \<lparr>Address = 0x01020304, Mask = 0xffffff00, Port = 0\<rparr> = 24"
    by (simp add: mask_eval)
  show ?thesis
    by (simp add: String_forms ip_1234 FormatUint_evals m IPv4HostMask_def)
qed

section \<open>Equality\<close>

text \<open>
  Claim C8. \<open>Equal\<close> is false whenever the type tag of the other address is not
  \<open>TypeIPv4\<close>; two IPv4 addresses with the same address and port and different masks
  are not \<open>Equal\<close>; and on two IPv4 addresses \<open>Equal\<close> compares the port, the address
  and the string form of the network (the address ANDed with the mask, with the mask).
\<close>

theorem Equal_type_and_mask:
  "(SockAddr_Type sa \<noteq> TypeIPv4 \<longrightarrow> \<not> Equal a sa)
   \<and> (Address a = Address b \<and> Port a = Port b \<and> Mask a \<noteq> Mask b \<longrightarrow> \<not> Equal a (SockIPv4 b))
   \<and> (Equal a (SockIPv4 b) \<longleftrightarrow>
        Port a = Port b \<and> Address a = Address b
        \<and> IPNet_String (PutUint32 (Address a AND Mask a)) (PutUint32 (Mask a))
          = IPNet_String (PutUint32 (Address b AND Mask b)) (PutUint32 (Mask b)))"
proof -
  have "Equal a (SockIPv4 b) \<longleftrightarrow>
        Port a = Port b \<and> Address a = Address b
        \<and> IPNet_String (PutUint32 (Address a AND Mask a)) (PutUint32 (Mask a))
          = IPNet_String (PutUint32 (Address b AND Mask b)) (PutUint32 (Mask b))"
    by (auto simp: Equal_def NetIPNet_def NetIPMask_def NetworkAddress_def TypeIPv4_def)
  moreover have "SockAddr_Type sa \<noteq> TypeIPv4 \<longrightarrow> \<not> Equal a sa"
    by (simp add: Equal_def)
  ultimately show ?thesis
    by (simp add: Equal_iff)
qed

theorem Equal_type_and_mask_witness:
  "\<not> Equal \<lparr>Address = 0x01020304, Mask = 0xffffff00, Port = 80\<rparr>
       (SockIPv4 \<lparr>Address = 0x01020304, Mask = 0xffffffff, Port = 80\<rparr>)
   \<and> \<not> Equal \<lparr>Address = 0x01020304, Mask = 0xffffff00, Port = 80\<rparr>
         (SockUnix \<lparr>path = ''/tmp/s''\<rparr>)"
proof -
  let ?a = "\<lparr>Address = 0x01020304, Mask = 0xffffff00, Port = 80\<rparr> :: IPv4Addr"
  let ?b = "\<lparr>Address = 0x01020304, Mask = 0xffffffff, Port = 80\<rparr> :: IPv4Addr"
  have t: "SockAddr_Type (SockUnix \<lparr>path = ''/tmp/s''\<rparr>) \<noteq> TypeIPv4"
    by (simp add: TypeUnix_def TypeIPv4_def)
  have d: "Address ?a = Address ?b \<and> Port ?a = Port ?b \<and> Mask ?a \<noteq> Mask ?b" by simp
  from Equal_type_and_mask [of "SockUnix \<lparr>path = ''/tmp/s''\<rparr>" ?a ?b] t
  have 1: "\<not> Equal ?a (SockUnix \<lparr>path = ''/tmp/s''\<rparr>)" by blast
  from Equal_type_and_mask [of "SockIPv4 ?b" ?a ?b] d
  have 2: "\<not> Equal ?a (SockIPv4 ?b)" by blast
  from 1 2 show ?thesis by simp
qed

section \<open>Mask and port of the derived addresses\<close>

text \<open>
  Claim C10. For every IPv4 address, \<open>Broadcast\<close>, \<open>FirstUsable\<close> and \<open>LastUsable\<close>
  return a value with the host mask and port 0, and \<open>Host\<close> returns a value with the
  host mask and the receiver's port.
\<close>

theorem derived_mask_and_port:
  "Mask (Broadcast a) = IPv4HostMask \<and> Port (Broadcast a) = 0
   \<and> Mask (FirstUsable a) = IPv4HostMask \<and> Port (FirstUsable a) = 0
   \<and> Mask (LastUsable a) = IPv4HostMask \<and> Port (LastUsable a) = 0
   \<and> Mask (Host a) = IPv4HostMask \<and> Port (Host a) = Port a"
  by (simp add: Broadcast_def FirstUsable_def LastUsable_def Host_def Let_def)

section \<open>The comparison of several keys and the insertion sort\<close>



lemma Less_total: "cmp \<noteq> [] \<Longrightarrow> \<exists>b. Less cmp p q = Inr b"
  by (induction cmp p q rule: Less.induct) (auto simp: Let_def)



























lemma example_distinct:
  "if_public \<noteq> if_private" "if_private \<noteq> if_public" "if_private \<noteq> if_private2"
  by (simp_all add: if_public_def if_private_def if_private2_def eth_def)

lemma sortFuncs_nonempty: "sortFuncs env (Split sep s) = Some fs \<Longrightarrow> fs \<noteq> []"
  by (cases s) (auto split: option.splits if_splits list.splits)

lemma Less_panics_iff: "Less cmp p q = Inl PanicIndexOutOfRange \<longleftrightarrow> cmp = []"
  using Less_total [of cmp p q] by (cases cmp) auto

text \<open>\<open>SortIfBy\<close> gives the empty list for a clause that names no sort key, and
  otherwise sorts with a list of keys that is not empty.\<close>

lemma SortIfBy_is_Sort:
  "SortIfBy env long selectorParam ifAddrs = Inr []
   \<or> (\<exists>cmp. cmp \<noteq> [] \<and> SortIfBy env long selectorParam ifAddrs = Sort long cmp ifAddrs)"
  using sortFuncs_nonempty [of env "CHR '',''" selectorParam]
  by (auto simp: SortIfBy_def split: option.splits)

section \<open>The multi-key sort\<close>





section \<open>Parsing an identifier and lower-casing a selector\<close>

lemma ParseUint_examples:
  "ParseUint ''18446744073709551615'' = (18446744073709551615, None)"
  "ParseUint ''18446744073709551616'' = (18446744073709551615, Some ErrRange)"
  "ParseUint ''99999999999999999999999x'' = (18446744073709551615, Some ErrRange)"
  "ParseUint ''12x'' = (0, Some ErrSyntax)"
  "ParseUint ''+5'' = (0, Some ErrSyntax)"
  by (simp_all add: ParseUint_def is_digit_def)

lemma ToLower_examples:
  "ToLower ''RfC'' = ''rfc''"
  "ToLower ([CHR ''s'', CHR 0xC4, CHR 0xB0] @ ''ZE'') = ''size''"
  "ToLower ([CHR 0xE2, CHR 0x84, CHR 0xAA] @ ''ey'') = ''key''"
  by code_simp+

section \<open>Excluding by registry identifier\<close>

lemma ParseUint_1918: "ParseUint ''1918'' = (1918, None)"
  by (simp add: ParseUint_def is_digit_def)

lemma ToLower_rfc: "ToLower ''rfc'' = ''rfc''"
  by code_simp

lemma ExcludeIfs_rfc_parsed:
  "list_all (\<lambda>rfcStr. snd (ParseUint rfcStr) = None) rfcs \<Longrightarrow>
   ExcludeIfs_rfc env inputIfAddrs rfcs excludedIfs = excludedIfs"
  by (induction rfcs) (auto split: prod.splits option.splits)

text \<open>
  Claim C2, evaluated. On the list of a public and a private address, with the private
  networks registered under 1918, \<open>IfByRFC\<close> leaves the public address in the
  remainder and \<open>IncludeIfs\<close> with the selector \<open>rfc\<close> returns the private one, while
  \<open>ExcludeIfs\<close> with the selector \<open>rfc\<close> and the parameter \<open>1918\<close> returns the empty
  list instead of the public address.
\<close>

theorem ExcludeIfs_rfc_returns_nothing:
  "IfByRFC example_env 1918 [if_public, if_private] = Inr ([if_private], [if_public])
   \<and> ExcludeIfs example_env ''rfc'' ''1918'' [if_public, if_private] = []
   \<and> IncludeIfs example_env ''rfc'' ''1918'' [if_public, if_private] = [if_private]"
  by (simp add: IfByRFC_def ExcludeIfs_def IncludeIfs_def ToLower_rfc ParseUint_1918
      example_env_def private_nets_def if_public_def if_private_def NetworkAddress_def)

section \<open>Removing duplicates under an unsupported selector\<close>

lemma unsupported_collapses:
  assumes "attrName \<noteq> ''address''" "attrName \<noteq> ''name''"
      and "lastMatch = ''<unsupported method '' @ quote_plus env selectorName @ ''>''"
  shows "UniqueIfAddrsBy_loop env attrName selectorName lastMatch ifAddrs = []"
  using assms by (induction ifAddrs) simp_all

lemma ToLower_type: "ToLower ''type'' = ''type''"
  by code_simp

text \<open>
  Claim C6, as amended. For every input list, \<open>UniqueIfAddrsBy\<close> called with a selector
  name whose lower-case form is neither \<open>address\<close> nor \<open>name\<close> treats all elements as
  equal: it returns the first element of the input alone, and the empty list for the
  empty input.
\<close>

theorem UniqueIfAddrsBy_unsupported:
  assumes "ToLower selectorName \<noteq> ''address''" "ToLower selectorName \<noteq> ''name''"
  shows "UniqueIfAddrsBy env selectorName inputIfAddrs = take 1 inputIfAddrs"
proof (cases inputIfAddrs)
  case Nil
  then show ?thesis by (simp add: UniqueIfAddrsBy_def)
next
  case (Cons ifAddr rest)
  then show ?thesis
    using assms unsupported_collapses [OF assms refl, of env selectorName rest]
    by (simp add: UniqueIfAddrsBy_def Let_def)
qed

theorem UniqueIfAddrsBy_unsupported_witness:
  "UniqueIfAddrsBy example_env ''type'' [if_public, if_private] = [if_public]"
  using UniqueIfAddrsBy_unsupported [of "''type''" example_env "[if_public, if_private]"]
  by (simp add: ToLower_type)

theorem UniqueIfAddrsBy_unsupported_counterexample:
  "UniqueIfAddrsBy example_env ''type'' [if_public, if_private] \<noteq> [if_public, if_private]"
  by (simp add: UniqueIfAddrsBy_def ToLower_type)

section \<open>The default route of Linux\<close>

text \<open>
  Claim C9, evaluated. On a line \<open>default via <gw> dev <ifname>\<close> that goes on after the
  interface name, \<open>parseLinuxDefaultIfName\<close> returns the name together with what
  follows it on the line, not the bare name.
\<close>

theorem parseLinux_trailing_fields:
  "parseLinuxDefaultIfName ''default via 10.0.0.1 dev eth0 proto static'' = Inr ''eth0 proto static''"
  by code_simp

text \<open>On a line that ends after the interface name, or after white space behind it,
  the function returns the bare name; with no line of the form it returns the error.\<close>

lemma parseLinux_five_fields:
  "parseLinuxDefaultIfName ''default via 10.0.0.1 dev eth0 '' = Inr ''eth0''"
  by code_simp

lemma parseLinux_no_default:
  "parseLinuxDefaultIfName ''10.0.0.0/24 dev eth0 proto kernel'' = Inl (Error ''No default interface found'')"
  by code_simp

end
